theory Spec2Isabelle
  imports Complex_Main "HOL-Library.Sublist"
begin

section \<open>PTC-Sim home page script (static/js/home.js)\<close>

text \<open>
  The script keeps a handful of globals (the selected loco, the rendered markers and
  polylines, one persisted infobox) and reacts to three kinds of events: a click on a row
  of the locos table, a click on a map marker, and the answer of the periodic content
  request. The embedding follows the script function by function. Objects of the Google
  Maps library are records that carry an object reference; every call the script makes
  on such an object, on jQuery's ajax or on the text-shuffle plugin is recorded, in
  order, in a list of calls. A tick of the refresh timer and the first fetch are calls of
  \<open>_get_content_async\<close>; the two sliders and the map legend take no part in the
  properties proved here and are left out.
\<close>

subsection \<open>Objects of the map library\<close>

type_synonym ref = nat

text \<open>The page's single map object, the global \<open>status_map\<close>.\<close>

datatype gmap = status_map

text \<open>\<open>new google.maps.InfoWindow({content: ...})\<close>.\<close>

record InfoWindow =
  iw_ref :: ref
  content :: string

text \<open>
  \<open>new google.maps.Marker({position, icon, title, map})\<close>. The title is optional: a
  marker built without one has the title \<open>undefined\<close>, here \<open>None\<close>. The click listener
  the script registers on a marker closes over the marker and over the infobox built for
  it; the field \<open>listener_infobox\<close> is that captured infobox.
\<close>

record Marker =
  mk_ref :: ref
  position :: "real \<times> real"
  icon :: string
  title :: "string option"
  listener_infobox :: InfoWindow

text \<open>The two symbol constants of the script; only \<open>LOCO_CONNLINE\<close> is ever used.\<close>

record symbol =
  sym_path :: string
  sym_strokeOpacity :: real
  sym_strokeColor :: string
  sym_scale :: nat

definition LOCO_CONNLINE :: symbol where
  "LOCO_CONNLINE =
     \<lparr>sym_path = ''M 0, -2 1, 1'', sym_strokeOpacity = 8 / 10,
      sym_strokeColor = ''#ffff00'', sym_scale = 2\<rparr>"

definition LOCO_NO_CONNLINE :: symbol where
  "LOCO_NO_CONNLINE =
     \<lparr>sym_path = ''M 0,-1 0,1'', sym_strokeOpacity = 6 / 10,
      sym_strokeColor = ''#ff0000'', sym_scale = 2\<rparr>"

text \<open>
  \<open>new google.maps.Polyline({path, strokeOpacity: 0, icons: [{icon, offset: '0px',
  repeat: '10px'}], map})\<close>.
\<close>

record Polyline =
  pl_ref :: ref
  pl_path :: "(real \<times> real) list"
  pl_strokeOpacity :: real
  pl_icon :: symbol

text \<open>Calls on external collaborators, in the order the script makes them.\<close>

datatype call =
    IW_open InfoWindow gmap "Marker option"
  | IW_close InfoWindow
  | Marker_new Marker gmap
  | Marker_setMap_null Marker
  | Polyline_new Polyline gmap
  | Polyline_setMap_null Polyline
  | Ajax_post "string option"
  | ShuffleLetters "string option"

subsection \<open>JavaScript values and errors\<close>

text \<open>
  What a method returns: \<open>undefined\<close> (a body with no \<open>return\<close>), \<open>null\<close> or a boolean.
  \<open>a && b\<close> evaluates to \<open>a\<close> when \<open>a\<close> is falsy and to \<open>b\<close> otherwise, so
  \<open>this.marker && ...\<close> is \<open>null\<close> when no marker is referenced and a boolean when one
  is. Callers only test the result for truthiness.
\<close>

datatype jsval = JUndefined | JNull | JBool bool

fun truthy :: "jsval \<Rightarrow> bool" where
  "truthy JUndefined = False"
| "truthy JNull = False"
| "truthy (JBool b) = b"

text \<open>Reading a property of \<open>undefined\<close> or \<open>null\<close> throws a \<open>TypeError\<close>.\<close>

datatype js_error = TypeError

text \<open>\<open>String.prototype.includes\<close>: the argument occurs as a contiguous substring.\<close>

fun str_includes :: "string \<Rightarrow> string \<Rightarrow> bool" where
  "str_includes [] sub = (sub = [])"
| "str_includes (c # cs) sub = (prefix sub (c # cs) \<or> str_includes cs sub)"

subsection \<open>class PersistInfobox\<close>

record PersistInfobox =
  infobox :: "InfoWindow option"
  marker :: "Marker option"

text \<open>\<open>constructor(infobox=null, marker=null)\<close>; the script calls it with no argument.\<close>

definition constructor :: "InfoWindow option \<Rightarrow> Marker option \<Rightarrow> PersistInfobox" where
  "constructor i m = \<lparr>infobox = i, marker = m\<rparr>"

text \<open>\<open>set(infobox, marker, map)\<close>: the third parameter is never read.\<close>

definition set_pib ::
  "PersistInfobox \<Rightarrow> InfoWindow option \<Rightarrow> Marker option \<Rightarrow> gmap option \<Rightarrow> PersistInfobox" where
  "set_pib this i m mp = this\<lparr>infobox := i, marker := m\<rparr>"

definition clear :: "PersistInfobox \<Rightarrow> PersistInfobox" where
  "clear this = this\<lparr>infobox := None, marker := None\<rparr>"

text \<open>\<open>is_set\<close> returns \<open>!this.infobox\<close>.\<close>

definition is_set :: "PersistInfobox \<Rightarrow> bool" where
  "is_set this = (case infobox this of None \<Rightarrow> True | Some i \<Rightarrow> False)"

text \<open>
  \<open>open\<close> and \<open>close\<close> return the instance after the call together with the calls made
  on the infobox.
\<close>

definition open_pib :: "PersistInfobox \<Rightarrow> gmap \<Rightarrow> PersistInfobox \<times> call list" where
  "open_pib this mp =
     (case infobox this of
        Some i \<Rightarrow> (this, [IW_open i mp (marker this)])
      | None \<Rightarrow> (this, []))"

definition close :: "PersistInfobox \<Rightarrow> PersistInfobox \<times> call list" where
  "close this =
     (case infobox this of
        Some i \<Rightarrow> (clear this, [IW_close i])
      | None \<Rightarrow> (this, []))"

text \<open>\<open>this.marker.title == device_name\<close>: an undefined title equals no name.\<close>

definition is_for_device :: "PersistInfobox \<Rightarrow> string \<Rightarrow> jsval" where
  "is_for_device this device_name =
     (case marker this of
        None \<Rightarrow> JNull
      | Some m \<Rightarrow> JBool (title m = Some device_name))"

text \<open>
  \<open>this.marker.title.includes('Loco')\<close>: on a marker without a title the call of
  \<open>includes\<close> on \<open>undefined\<close> throws.
\<close>

definition is_loco :: "PersistInfobox \<Rightarrow> js_error + jsval" where
  "is_loco this =
     (case marker this of
        None \<Rightarrow> Inr JNull
      | Some m \<Rightarrow>
          (case title m of
             None \<Rightarrow> Inl TypeError
           | Some t \<Rightarrow> Inr (JBool (str_includes t ''Loco''))))"

text \<open>
  A call of the constructor or of a method on the variable that holds the instance: the
  error thrown, or the value returned, the instance afterwards and the calls made on the
  infobox.
\<close>

datatype method_call =
    Call_new "InfoWindow option" "Marker option"
  | Call_set "InfoWindow option" "Marker option" "gmap option"
  | Call_clear
  | Call_is_set
  | Call_open gmap
  | Call_close
  | Call_is_for_device string
  | Call_is_loco

fun invoke ::
  "method_call \<Rightarrow> PersistInfobox \<Rightarrow> js_error + (jsval \<times> PersistInfobox \<times> call list)" where
  "invoke (Call_new i m) this = Inr (JUndefined, constructor i m, [])"
| "invoke (Call_set i m mp) this = Inr (JUndefined, set_pib this i m mp, [])"
| "invoke Call_clear this = Inr (JUndefined, clear this, [])"
| "invoke Call_is_set this = Inr (JBool (is_set this), this, [])"
| "invoke (Call_open mp) this = Inr (JUndefined, open_pib this mp)"
| "invoke Call_close this = Inr (JUndefined, close this)"
| "invoke (Call_is_for_device device_name) this = Inr (is_for_device this device_name, this, [])"
| "invoke Call_is_loco this =
     (case is_loco this of
        Inl e \<Rightarrow> Inl e
      | Inr v \<Rightarrow> Inr (v, this, []))"

text \<open>The two references are both set or both null.\<close>

definition both_or_neither :: "PersistInfobox \<Rightarrow> bool" where
  "both_or_neither this = ((infobox this = None) = (marker this = None))"

subsection \<open>The server's answer\<close>

text \<open>
  Modelled from the spec: the body of the answer, which the server endpoint
  \<open>/_home_get_async_content\<close> produces and the script only reads. The specification
  (section 6) gives it as either the string \<open>'error'\<close> or an object with the fields
  \<open>shuffle_data\<close> (element id to text value), \<open>locos_table\<close> (an HTML fragment),
  \<open>loco_connlines\<close> (paths, each a sequence of lat/lng pairs) and \<open>status_map.markers\<close>
  (lat, lng, icon, title, infobox HTML). An id that is not a key of \<open>shuffle_data\<close> reads
  as \<open>undefined\<close>.
\<close>

record marker_desc =
  md_lat :: real
  md_lng :: real
  md_icon :: string
  md_title :: string
  md_infobox :: string

record content_data =
  shuffle_data :: "string \<rightharpoonup> string"
  locos_table :: string
  loco_connlines :: "(real \<times> real) list list"
  status_map_markers_data :: "marker_desc list"

datatype response = Error_sentinel | Content content_data

subsection \<open>The page: globals, document, and the record of calls\<close>

text \<open>An element of the document: its \<open>id\<close> attribute, its class names, its text.\<close>

record element =
  el_id :: "string option"
  classes :: "string list"
  el_text :: string

text \<open>
  \<open>curr_loco\<close>, \<open>curr_polylines\<close>, \<open>persist_infobox\<close> and \<open>status_map_markers\<close> are the
  script's globals. \<open>locos_table_html\<close> is the HTML last written into \<open>#locos-table\<close>,
  \<open>document_elems\<close> the elements of the document in document order, \<open>calls\<close> the calls
  made so far, \<open>console\<close> the lines written to the console, \<open>next_ref\<close> the reference the
  next object built with \<open>new\<close> receives.
\<close>

record page =
  curr_loco :: "string option"
  curr_polylines :: "Polyline list"
  persist_infobox :: PersistInfobox
  status_map_markers :: "Marker list"
  locos_table_html :: string
  document_elems :: "element list"
  calls :: "call list"
  console :: "string list"
  next_ref :: ref

text \<open>A method of \<open>persist_infobox\<close> run on the page: its calls are appended to the record.\<close>

definition perform :: "(PersistInfobox \<Rightarrow> PersistInfobox \<times> call list) \<Rightarrow> page \<Rightarrow> page" where
  "perform method_of s =
     (case method_of (persist_infobox s) of
        (this', cs) \<Rightarrow> s\<lparr>persist_infobox := this', calls := calls s @ cs\<rparr>)"

text \<open>
  \<open>infobox.getMap()\<close> is truthy while the infobox is shown: among the calls of the
  script, its last \<open>open\<close> or \<open>close\<close>, if any, was an \<open>open\<close>.
\<close>

fun getMap_step :: "InfoWindow \<Rightarrow> call \<Rightarrow> bool \<Rightarrow> bool" where
  "getMap_step i (IW_open j mp m) b = (if iw_ref j = iw_ref i then True else b)"
| "getMap_step i (IW_close j) b = (if iw_ref j = iw_ref i then False else b)"
| "getMap_step i c b = b"

definition getMap :: "call list \<Rightarrow> InfoWindow \<Rightarrow> bool" where
  "getMap cs i = fold (getMap_step i) cs False"

subsection \<open>\<open>_get_content_async\<close> and \<open>home_select_loco\<close>\<close>

text \<open>
  \<open>_get_content_async\<close> posts \<open>{loco_name: curr_loco}\<close> and returns; the answer is handled
  later by \<open>success\<close> or \<open>ajax_error\<close>.
\<close>

definition get_content_async :: "page \<Rightarrow> page" where
  "get_content_async s = s\<lparr>calls := calls s @ [Ajax_post (curr_loco s)]\<rparr>"

text \<open>
  A handler either returns or throws; either way it leaves a page behind. An error
  thrown comes with the page as it was left.
\<close>

definition page_after :: "(js_error \<times> page) + page \<Rightarrow> page" where
  "page_after r = (case r of Inl (e, s) \<Rightarrow> s | Inr s \<Rightarrow> s)"

text \<open>
  \<open>home_select_loco\<close>: when \<open>is_loco()\<close> throws, the new selection is already stored
  and the request is not issued.
\<close>

definition home_select_loco :: "string \<Rightarrow> page \<Rightarrow> (js_error \<times> page) + page" where
  "home_select_loco loco_name s =
     (if curr_loco s = Some loco_name then Inr (get_content_async (s\<lparr>curr_loco := None\<rparr>))
      else
        (let s1 = s\<lparr>curr_loco := Some loco_name\<rparr> in
         case is_loco (persist_infobox s1) of
           Inl e \<Rightarrow> Inl (e, s1)
         | Inr v \<Rightarrow>
             Inr (get_content_async
                   (if truthy v \<and> \<not> truthy (is_for_device (persist_infobox s1) loco_name)
                    then perform close s1
                    else s1))))"

subsection \<open>The handlers of the content request\<close>

text \<open>The \<open>error\<close> handler logs a timeout and ignores every other failure.\<close>

definition ajax_error :: "string \<Rightarrow> page \<Rightarrow> page" where
  "ajax_error textStatus s =
     (if textStatus = ''timeout''
      then s\<lparr>console := console s @ [''Content refresh request timed out.'']\<rparr>
      else s)"

text \<open>\<open>$('.shuffleable')\<close>: the elements of class \<open>shuffleable\<close>, in document order.\<close>

definition shuffleable :: "element list \<Rightarrow> element list" where
  "shuffleable doc = filter (\<lambda>e. ''shuffleable'' \<in> set (classes e)) doc"

text \<open>A property key: \<open>undefined\<close> (no \<open>id\<close> attribute) reads the key \<open>'undefined'\<close>.\<close>

definition prop_key :: "string option \<Rightarrow> string" where
  "prop_key i = (case i of None \<Rightarrow> ''undefined'' | Some k \<Rightarrow> k)"

text \<open>
  The first \<open>each\<close> loop of \<open>success\<close>: an element's id is pushed when its text is not
  equal to \<open>data.shuffle_data[id]\<close>.
\<close>

fun needs_txtshuffle_each ::
  "(string \<rightharpoonup> string) \<Rightarrow> element list \<Rightarrow> string option list \<Rightarrow> string option list" where
  "needs_txtshuffle_each sd [] acc = acc"
| "needs_txtshuffle_each sd (e # es) acc =
     needs_txtshuffle_each sd es
       (if sd (prop_key (el_id e)) \<noteq> Some (el_text e) then acc @ [el_id e] else acc)"

definition needs_txtshuffle :: "(string \<rightharpoonup> string) \<Rightarrow> element list \<Rightarrow> string option list" where
  "needs_txtshuffle sd doc = needs_txtshuffle_each sd (shuffleable doc) []"

text \<open>
  \<open>document.getElementById(i).className = c\<close>: the first element with that id gets the
  single class \<open>c\<close>; with no such element the assignment throws a \<open>TypeError\<close>.
\<close>

fun set_className :: "string \<Rightarrow> string \<Rightarrow> element list \<Rightarrow> element list option" where
  "set_className i c [] = None"
| "set_className i c (e # es) =
     (if el_id e = Some i then Some (e\<lparr>classes := [c]\<rparr> # es)
      else map_option ((#) e) (set_className i c es))"

text \<open>The second \<open>each\<close> loop: the shuffle effect on every element whose id was noted.\<close>

definition do_txtshuffle :: "string option list \<Rightarrow> page \<Rightarrow> page" where
  "do_txtshuffle needs s =
     s\<lparr>calls := calls s @
        map (\<lambda>e. ShuffleLetters (el_id e))
          (filter (\<lambda>e. el_id e \<in> set needs) (shuffleable (document_elems s)))\<rparr>"

text \<open>Every marker and polyline is taken off the map, and the two lists are emptied.\<close>

definition remove_markers :: "page \<Rightarrow> page" where
  "remove_markers s =
     s\<lparr>calls := calls s @ map Marker_setMap_null (status_map_markers s),
       status_map_markers := []\<rparr>"

definition remove_polylines :: "page \<Rightarrow> page" where
  "remove_polylines s =
     s\<lparr>calls := calls s @ map Polyline_setMap_null (curr_polylines s),
       curr_polylines := []\<rparr>"

fun make_polylines :: "(real \<times> real) list list \<Rightarrow> page \<Rightarrow> page" where
  "make_polylines [] s = s"
| "make_polylines (p # ps) s =
     (let line = \<lparr>pl_ref = next_ref s, pl_path = p, pl_strokeOpacity = 0,
                   pl_icon = LOCO_CONNLINE\<rparr>
      in make_polylines ps
           (s\<lparr>calls := calls s @ [Polyline_new line status_map],
              curr_polylines := curr_polylines s @ [line],
              next_ref := Suc (next_ref s)\<rparr>))"

fun make_markers :: "marker_desc list \<Rightarrow> page \<Rightarrow> page" where
  "make_markers [] s = s"
| "make_markers (d # ds) s =
     (let infobox = \<lparr>iw_ref = Suc (next_ref s), content = md_infobox d\<rparr>;
          marker = \<lparr>mk_ref = next_ref s, position = (md_lat d, md_lng d),
                    icon = md_icon d, title = Some (md_title d), listener_infobox = infobox\<rparr>
      in make_markers ds
           (s\<lparr>calls := calls s @ [Marker_new marker status_map],
              status_map_markers := status_map_markers s @ [marker],
              next_ref := Suc (Suc (next_ref s))\<rparr>))"

text \<open>
  The \<open>success\<close> handler. \<open>html_into\<close> stands for the browser: the elements of the
  document once \<open>#locos-table\<close> has received the given HTML. The last console line ends
  with the elapsed time, a clock reading, which the recorded line leaves out.
\<close>

definition success ::
  "(string \<Rightarrow> element list \<Rightarrow> element list) \<Rightarrow> response \<Rightarrow> page \<Rightarrow> (js_error \<times> page) + page" where
  "success html_into data s =
     (case data of
        Error_sentinel \<Rightarrow>
          Inr (s\<lparr>console := console s @ [''Server available but failed returning content.'']\<rparr>)
      | Content d \<Rightarrow>
          (let needs = needs_txtshuffle (shuffle_data d) (document_elems s);
               s1 = s\<lparr>locos_table_html := locos_table d,
                      document_elems := html_into (locos_table d) (document_elems s)\<rparr>;
               clicked =
                 (case curr_loco s1 of
                    None \<Rightarrow> Some (document_elems s1)
                  | Some n \<Rightarrow>
                      if n = [] then Some (document_elems s1)
                      else set_className n ''clicked'' (document_elems s1))
           in case clicked of
                None \<Rightarrow> Inl (TypeError, s1)
              | Some doc \<Rightarrow>
                  (let s2 = do_txtshuffle needs (s1\<lparr>document_elems := doc\<rparr>);
                       s3 = remove_polylines (remove_markers s2);
                       s4 = make_polylines (loco_connlines d) s3;
                       s5 = make_markers (status_map_markers_data d) s4;
                       s6 = perform (\<lambda>this. open_pib this status_map) s5
                   in Inr (s6\<lparr>console := console s6 @ [''Home Refreshed - client side took: '']\<rparr>))))"

subsection \<open>A click on a marker\<close>

text \<open>
  The listener of a marker: if its own infobox is shown, the persisted one is closed;
  otherwise the persisted one is closed, replaced by this marker's, and opened.
\<close>

definition marker_click :: "Marker \<Rightarrow> page \<Rightarrow> page" where
  "marker_click mk s =
     (if getMap (calls s) (listener_infobox mk) then perform close s
      else
        (let s1 = perform close s;
             s2 = s1\<lparr>persist_infobox :=
                      set_pib (persist_infobox s1) (Some (listener_infobox mk)) (Some mk) None\<rparr>
         in perform (\<lambda>this. open_pib this status_map) s2))"

subsection \<open>States the page can reach\<close>

text \<open>
  The script starts with no selection, no polyline and \<open>new PersistInfobox()\<close>; from
  there the state changes only through the first fetch and the ticks of the timer (each
  a call of \<open>_get_content_async\<close>) and through the handlers above.
\<close>

inductive reachable :: "page \<Rightarrow> bool" where
  start: "curr_loco s = None \<Longrightarrow> curr_polylines s = [] \<Longrightarrow>
          persist_infobox s = constructor None None \<Longrightarrow> reachable s"
| tick: "reachable s \<Longrightarrow> reachable (get_content_async s)"
| select: "reachable s \<Longrightarrow> reachable (page_after (home_select_loco loco_name s))"
| click: "reachable s \<Longrightarrow> mk \<in> set (status_map_markers s) \<Longrightarrow> reachable (marker_click mk s)"
| refreshed: "reachable s \<Longrightarrow> success html_into data s = Inr s' \<Longrightarrow> reachable s'"
| refresh_threw: "reachable s \<Longrightarrow> success html_into data s = Inl (e, s') \<Longrightarrow> reachable s'"
| request_failed: "reachable s \<Longrightarrow> reachable (ajax_error textStatus s)"

subsection \<open>Sample objects\<close>

definition base3_infobox :: InfoWindow where
  "base3_infobox = \<lparr>iw_ref = 1, content = ''Base 3''\<rparr>"

definition base3_marker :: Marker where
  "base3_marker =
     \<lparr>mk_ref = 0, position = (0, 0), icon = ''base.png'', title = Some ''Base 3'',
      listener_infobox = base3_infobox\<rparr>"

definition loco1002_infobox :: InfoWindow where
  "loco1002_infobox = \<lparr>iw_ref = 3, content = ''Loco 1002''\<rparr>"

definition loco1002_marker :: Marker where
  "loco1002_marker =
     \<lparr>mk_ref = 2, position = (1, 1), icon = ''loco.png'', title = Some ''Loco 1002'',
      listener_infobox = loco1002_infobox\<rparr>"

text \<open>A marker built without a title, and its infobox.\<close>

definition untitled_infobox :: InfoWindow where
  "untitled_infobox = \<lparr>iw_ref = 7, content = ''Siding''\<rparr>"

definition untitled_marker :: Marker where
  "untitled_marker =
     \<lparr>mk_ref = 6, position = (2, 2), icon = ''base.png'', title = None,
      listener_infobox = untitled_infobox\<rparr>"

definition start_page :: page where
  "start_page =
     \<lparr>curr_loco = None, curr_polylines = [], persist_infobox = constructor None None,
      status_map_markers = [base3_marker, loco1002_marker], locos_table_html = [],
      document_elems = [], calls = [], console = [], next_ref = 4\<rparr>"

definition sample_doc :: "element list" where
  "sample_doc =
     [\<lparr>el_id = Some ''speed'', classes = [''shuffleable''], el_text = ''42''\<rparr>,
      \<lparr>el_id = Some ''heading'', classes = [''cell'', ''shuffleable''], el_text = ''N''\<rparr>,
      \<lparr>el_id = Some ''legend'', classes = [''legend''], el_text = ''Coverage Legend''\<rparr>]"

section \<open>Properties of PersistInfobox\<close>

lemma str_includes_iff: "str_includes s sub = (\<exists>u v. s = u @ sub @ v)"
proof (induction s)
  case Nil
  show ?case by auto
next
  case (Cons c cs)
  have "(\<exists>u v. c # cs = u @ sub @ v) = (prefix sub (c # cs) \<or> (\<exists>u v. cs = u @ sub @ v))"
  proof
    assume "\<exists>u v. c # cs = u @ sub @ v"
    then obtain u v where uv: "c # cs = u @ sub @ v" by blast
    show "prefix sub (c # cs) \<or> (\<exists>u v. cs = u @ sub @ v)"
    proof (cases u)
      case Nil
      with uv show ?thesis by (simp add: prefix_def)
    next
      case (Cons a u')
      with uv have "cs = u' @ sub @ v" by simp
      then show ?thesis by blast
    qed
  next
    assume "prefix sub (c # cs) \<or> (\<exists>u v. cs = u @ sub @ v)"
    then show "\<exists>u v. c # cs = u @ sub @ v"
    proof
      assume "prefix sub (c # cs)"
      then obtain v where "c # cs = sub @ v" by (auto simp: prefix_def)
      then have "c # cs = [] @ sub @ v" by simp
      then show ?thesis by blast
    next
      assume "\<exists>u v. cs = u @ sub @ v"
      then obtain u v where "cs = u @ sub @ v" by blast
      then have "c # cs = (c # u) @ sub @ v" by simp
      then show ?thesis by blast
    qed
  qed
  with Cons.IH show ?case by simp
qed

lemma both_or_neither_close: "both_or_neither this \<Longrightarrow> both_or_neither (fst (close this))"
  by (simp add: close_def clear_def both_or_neither_def split: option.split)

lemma fst_open_pib: "fst (open_pib this mp) = this"
  by (simp add: open_pib_def split: option.split)

text \<open>
  Property C10. \<open>is_set()\<close> returns true exactly when no infobox is referenced: true on
  the instance the script creates, false after \<open>set(i, m)\<close> with an infobox object \<open>i\<close>.
\<close>

theorem is_set_negated:
  "is_set this = (infobox this = None)
   \<and> is_set (constructor None None)
   \<and> \<not> is_set (set_pib this (Some i) m mp)"
proof -
  have negated: "is_set t = (infobox t = None)" for t
    by (cases "infobox t") (simp_all add: is_set_def)
  show ?thesis
    by (simp add: negated constructor_def set_pib_def)
qed

text \<open>
  Property C3. \<open>close\<close> is idempotent: a second \<open>close\<close> leaves the instance as the first
  one left it and makes no call, so the page after two is the page after one. With no
  infobox referenced \<open>close\<close> does nothing; with one referenced (and from every instance
  whose references are both set or both null) it leaves the empty instance.
\<close>

theorem close_idempotent:
  "close (fst (close this)) = (fst (close this), [])
   \<and> (infobox this = None \<longrightarrow> close this = (this, []))
   \<and> (infobox this \<noteq> None \<or> both_or_neither this \<longrightarrow> fst (close this) = constructor None None)
   \<and> perform close (perform close s) = perform close s"
proof -
  have again: "close (fst (close t)) = (fst (close t), [])" for t
    by (cases "infobox t") (simp_all add: close_def clear_def)
  have "perform close (perform close s) = perform close s"
  proof -
    obtain t cs where once: "close (persist_infobox s) = (t, cs)"
      by (cases "close (persist_infobox s)")
    with again [of "persist_infobox s"] have "close t = (t, [])"
      by simp
    with once show ?thesis
      by (simp add: perform_def)
  qed
  moreover have "close (fst (close this)) = (fst (close this), [])
   \<and> (infobox this = None \<longrightarrow> close this = (this, []))
   \<and> (infobox this \<noteq> None \<or> both_or_neither this \<longrightarrow> fst (close this) = constructor None None)"
  proof (cases "infobox this")
  case None
  then have "close this = (this, [])"
    by (simp add: close_def)
  moreover from None have "both_or_neither this \<Longrightarrow> this = constructor None None"
    by (simp add: both_or_neither_def constructor_def)
  ultimately show ?thesis
    using None by auto
next
  case (Some i)
  then have "close this = (constructor None None, [IW_close i])"
    by (simp add: close_def clear_def constructor_def)
  moreover have "close (constructor None None) = (constructor None None, [])"
    by (simp add: close_def constructor_def)
  ultimately show ?thesis
    using Some by simp
  qed
  ultimately show ?thesis
    by simp
qed

theorem close_idempotent_witness:
  "close (fst (close \<lparr>infobox = Some base3_infobox, marker = Some base3_marker\<rparr>))
     = (constructor None None, [])
   \<and> close (constructor None None) = (constructor None None, [])"
proof -
  let ?p = "\<lparr>infobox = Some base3_infobox, marker = Some base3_marker\<rparr>"
  have "infobox ?p \<noteq> None" and "infobox (constructor None None) = None"
    by (simp_all add: constructor_def)
  with close_idempotent [of ?p] close_idempotent [of "constructor None None"]
  show ?thesis by simp
qed

text \<open>
  Property C7. After \<open>set(i, m)\<close> and then \<open>clear()\<close>, \<open>is_for_device(n)\<close> is false for
  every name \<open>n\<close>, the title of \<open>m\<close> included: no marker is referenced any more, so the
  value returned is the falsy \<open>null\<close>.
\<close>

theorem set_clear_is_for_device:
  "\<not> truthy (is_for_device (clear (set_pib this i m mp)) n)
   \<and> is_for_device (clear (set_pib this i m mp)) n = JNull"
proof -
  have "marker (clear (set_pib this i m mp)) = None"
    by (simp add: clear_def)
  then have "is_for_device (clear (set_pib this i m mp)) n = JNull"
    by (simp add: is_for_device_def)
  then show ?thesis by simp
qed

text \<open>
  Property C8, as stated: every operation would be total, with no error path. It fails
  for \<open>is_loco\<close>: with a marker built without a title referenced, the call throws a
  \<open>TypeError\<close>.
\<close>

theorem is_loco_untitled_counterexample:
  "title untitled_marker = None
   \<and> is_loco \<lparr>infobox = Some untitled_infobox, marker = Some untitled_marker\<rparr> = Inl TypeError
   \<and> invoke Call_is_loco \<lparr>infobox = Some untitled_infobox, marker = Some untitled_marker\<rparr>
        = Inl TypeError"
  by (simp add: is_loco_def untitled_marker_def)

text \<open>
  Property C8, amended. The constructor and every method but \<open>is_loco\<close> return for every
  instance and every argument; \<open>is_loco\<close> throws exactly when the referenced marker has no
  title, and returns otherwise. With no infobox referenced \<open>open\<close> and \<open>close\<close> change
  nothing and make no call, on the instance and on the page.
\<close>

theorem only_is_loco_throws:
  "(invoke c this = Inl e) = (c = Call_is_loco \<and> (\<exists>m. marker this = Some m \<and> title m = None))
   \<and> (infobox this = None \<longrightarrow> open_pib this mp = (this, []) \<and> close this = (this, []))
   \<and> (infobox (persist_infobox s) = None \<longrightarrow>
        perform (\<lambda>this. open_pib this mp) s = s \<and> perform close s = s)"
proof -
  have throws: "(is_loco this = Inl e) = (\<exists>m. marker this = Some m \<and> title m = None)"
    by (cases e) (auto simp: is_loco_def split: option.splits)
  have "(invoke c this = Inl e) = (c = Call_is_loco \<and> is_loco this = Inl e)"
    by (cases c) (simp_all split: sum.splits)
  with throws have errors:
    "(invoke c this = Inl e) = (c = Call_is_loco \<and> (\<exists>m. marker this = Some m \<and> title m = None))"
    by simp
  have unset: "open_pib t mp = (t, []) \<and> close t = (t, [])" if "infobox t = None" for t
    using that by (simp add: open_pib_def close_def)
  have "perform (\<lambda>this. open_pib this mp) s = s \<and> perform close s = s"
    if "infobox (persist_infobox s) = None"
    using unset [OF that] by (simp add: perform_def)
  with unset errors show ?thesis
    by blast
qed

theorem only_is_loco_throws_witness:
  "invoke Call_close (constructor None None) = Inr (JUndefined, constructor None None, [])
   \<and> invoke Call_is_loco (constructor None None) \<noteq> Inl TypeError
   \<and> open_pib (constructor None None) status_map = (constructor None None, [])
   \<and> close (constructor None None) = (constructor None None, [])
   \<and> perform (\<lambda>this. open_pib this status_map) start_page = start_page
   \<and> perform close start_page = start_page"
proof -
  have unset: "infobox (constructor None None) = None"
    and "infobox (persist_infobox start_page) = None"
    and "marker (constructor None None) = None"
    by (simp_all add: constructor_def start_page_def)
  with only_is_loco_throws [of Call_is_loco "constructor None None" TypeError status_map start_page]
  show ?thesis by simp
qed

text \<open>
  Property C9, as stated, for every label: \<open>is_loco\<close> would be true whenever the
  referenced marker's title contains the label. It fails for the label \<open>Base\<close>: with the
  popup of the marker titled \<open>Base 3\<close> persisted, the title contains \<open>Base\<close> and \<open>is_loco\<close>
  is false.
\<close>

theorem is_loco_label_counterexample:
  "infobox \<lparr>infobox = Some base3_infobox, marker = Some base3_marker\<rparr> = Some base3_infobox
   \<and> marker \<lparr>infobox = Some base3_infobox, marker = Some base3_marker\<rparr> = Some base3_marker
   \<and> title base3_marker = Some ''Base 3''
   \<and> str_includes ''Base 3'' ''Base''
   \<and> is_loco \<lparr>infobox = Some base3_infobox, marker = Some base3_marker\<rparr> = Inr (JBool False)"
  by (simp add: is_loco_def base3_marker_def)

text \<open>
  Property C9, amended. \<open>is_loco\<close> takes no label: it returns true if and only if a
  marker is referenced and its title contains the fixed substring \<open>Loco\<close>.
\<close>

theorem is_loco_iff:
  "(is_loco this = Inr (JBool True))
     = (\<exists>m u v. marker this = Some m \<and> title m = Some (u @ ''Loco'' @ v))
   \<and> (\<exists>r. is_loco this = Inr r \<and> truthy r) = (is_loco this = Inr (JBool True))"
proof -
  have truth: "(\<exists>r. is_loco this = Inr r \<and> truthy r) = (is_loco this = Inr (JBool True))"
  proof
    assume "\<exists>r. is_loco this = Inr r \<and> truthy r"
    then obtain r where "is_loco this = Inr r" and "truthy r" by blast
    then show "is_loco this = Inr (JBool True)" by (cases r) simp_all
  next
    assume "is_loco this = Inr (JBool True)"
    then show "\<exists>r. is_loco this = Inr r \<and> truthy r" by simp
  qed
  have "(is_loco this = Inr (JBool True))
     = (\<exists>m u v. marker this = Some m \<and> title m = Some (u @ ''Loco'' @ v))"
  proof (cases "marker this")
    case None
    then show ?thesis by (simp add: is_loco_def)
  next
    case (Some m)
    show ?thesis
    proof (cases "title m")
      case None
      with Some show ?thesis by (simp add: is_loco_def)
    next
      case (Some t)
      with \<open>marker this = Some m\<close>
      have "is_loco this = Inr (JBool (\<exists>u v. t = u @ ''Loco'' @ v))"
        by (simp add: is_loco_def str_includes_iff)
      with Some \<open>marker this = Some m\<close> show ?thesis by auto
    qed
  qed
  with truth show ?thesis by simp
qed

theorem is_loco_iff_witness:
  "is_loco \<lparr>infobox = Some loco1002_infobox, marker = Some loco1002_marker\<rparr> = Inr (JBool True)
   \<and> is_loco (constructor None None) \<noteq> Inr (JBool True)"
proof -
  let ?p = "\<lparr>infobox = Some loco1002_infobox, marker = Some loco1002_marker\<rparr>"
  have "title loco1002_marker = Some ([] @ ''Loco'' @ '' 1002'')"
    by (simp add: loco1002_marker_def)
  then have "\<exists>m u v. marker ?p = Some m \<and> title m = Some (u @ ''Loco'' @ v)"
    by (intro exI [of _ loco1002_marker] exI [of _ "[]"] exI [of _ "'' 1002''"]) simp
  moreover have "\<not> (\<exists>m u v. marker (constructor None None) = Some m
      \<and> title m = Some (u @ ''Loco'' @ v))"
    by (simp add: constructor_def)
  ultimately show ?thesis
    using is_loco_iff [of ?p] is_loco_iff [of "constructor None None"] by simp
qed

section \<open>Properties of the page\<close>

lemma persist_infobox_perform:
  "persist_infobox (perform method_of s) = fst (method_of (persist_infobox s))"
  by (simp add: perform_def split: prod.split)

lemma calls_perform:
  "calls (perform method_of s) = calls s @ snd (method_of (persist_infobox s))"
  by (simp add: perform_def split: prod.split)

lemma curr_loco_perform: "curr_loco (perform method_of s) = curr_loco s"
  by (simp add: perform_def split: prod.split)

lemma locos_table_html_perform:
  "locos_table_html (perform method_of s) = locos_table_html s"
  by (simp add: perform_def split: prod.split)

lemmas perform_fields =
  persist_infobox_perform calls_perform curr_loco_perform locos_table_html_perform

lemma make_polylines_keeps:
  "persist_infobox (make_polylines ps s) = persist_infobox s"
  "curr_loco (make_polylines ps s) = curr_loco s"
  "locos_table_html (make_polylines ps s) = locos_table_html s"
  by (induction ps arbitrary: s) (simp_all add: Let_def)

lemma make_markers_keeps:
  "persist_infobox (make_markers ds s) = persist_infobox s"
  "curr_loco (make_markers ds s) = curr_loco s"
  "locos_table_html (make_markers ds s) = locos_table_html s"
  by (induction ds arbitrary: s) (simp_all add: Let_def)

text \<open>
  Whatever the answer, and whether or not the handler throws, \<open>success\<close> leaves the
  selection and the persisted references as they were.
\<close>

lemma success_keeps:
  assumes "success html_into data s = Inr s' \<or> success html_into data s = Inl (e, s')"
  shows "persist_infobox s' = persist_infobox s \<and> curr_loco s' = curr_loco s"
proof (cases data)
  case Error_sentinel
  with assms show ?thesis by (auto simp: success_def)
next
  case (Content d)
  with assms show ?thesis
    by (auto simp: success_def Let_def do_txtshuffle_def remove_markers_def
        remove_polylines_def perform_fields fst_open_pib make_polylines_keeps
        make_markers_keeps split: option.splits if_splits)
qed

text \<open>An answer with content does replace the table: the handler is not idle.\<close>

lemma success_content_table:
  assumes "success html_into (Content d) s = Inr s' \<or> success html_into (Content d) s = Inl (e, s')"
  shows "locos_table_html s' = locos_table d"
  using assms
  by (auto simp: success_def Let_def do_txtshuffle_def remove_markers_def
      remove_polylines_def perform_fields make_polylines_keeps make_markers_keeps
      split: option.splits if_splits)

lemma persist_infobox_home_select_loco:
  "persist_infobox (page_after (home_select_loco n s)) = persist_infobox s
   \<or> persist_infobox (page_after (home_select_loco n s)) = fst (close (persist_infobox s))"
  by (simp add: home_select_loco_def page_after_def get_content_async_def perform_fields
      Let_def split: sum.split)

lemma persist_infobox_marker_click:
  "persist_infobox (marker_click mk s) = fst (close (persist_infobox s))
   \<or> persist_infobox (marker_click mk s)
       = set_pib (fst (close (persist_infobox s))) (Some (listener_infobox mk)) (Some mk) None"
  by (simp add: marker_click_def perform_fields fst_open_pib Let_def)

lemma reachable_both_or_neither: "reachable s \<Longrightarrow> both_or_neither (persist_infobox s)"
proof (induction rule: reachable.induct)
  case (start s)
  then show ?case by (simp add: both_or_neither_def constructor_def)
next
  case (tick s)
  then show ?case by (simp add: get_content_async_def)
next
  case (select s loco_name)
  have "both_or_neither (fst (close (persist_infobox s)))"
    using select.IH by (rule both_or_neither_close)
  with persist_infobox_home_select_loco [of loco_name s] select.IH show ?case
    by auto
next
  case (click s mk)
  have closed: "both_or_neither (fst (close (persist_infobox s)))"
    using click.IH by (rule both_or_neither_close)
  have stored: "both_or_neither (set_pib t (Some i) (Some mk) None)" for t i
    by (simp add: both_or_neither_def set_pib_def)
  from persist_infobox_marker_click [of mk s] closed stored show ?case
    by auto
next
  case (refreshed s html_into data s')
  with success_keeps [of html_into data s s'] show ?case by simp
next
  case (refresh_threw s html_into data e s')
  with success_keeps [of html_into data s s' e] show ?case by simp
next
  case (request_failed s textStatus)
  then show ?case by (simp add: ajax_error_def)
qed

text \<open>The sample page after a click on the marker of Base 3, and on that of Loco 1002.\<close>

lemma click_base3:
  "marker_click base3_marker start_page
     = start_page\<lparr>persist_infobox := \<lparr>infobox = Some base3_infobox, marker = Some base3_marker\<rparr>,
                  calls := [IW_open base3_infobox status_map (Some base3_marker)]\<rparr>"
  by (simp add: marker_click_def start_page_def getMap_def close_def constructor_def
      set_pib_def open_pib_def perform_def base3_marker_def Let_def)

lemma click_loco1002:
  "marker_click loco1002_marker start_page
     = start_page\<lparr>persist_infobox :=
                    \<lparr>infobox = Some loco1002_infobox, marker = Some loco1002_marker\<rparr>,
                  calls := [IW_open loco1002_infobox status_map (Some loco1002_marker)]\<rparr>"
  by (simp add: marker_click_def start_page_def getMap_def close_def constructor_def
      set_pib_def open_pib_def perform_def loco1002_marker_def Let_def)

lemma reachable_click_base3: "reachable (marker_click base3_marker start_page)"
  by (rule reachable.click, rule reachable.start) (simp_all add: start_page_def)

text \<open>
  Property C2, as stated: every operation would keep the two references both set or both
  null. \<open>set\<close> and the constructor store whatever they are given: from the empty
  instance, \<open>set(null, m)\<close> and \<open>set(i, null)\<close> leave one reference set and the other
  null, and so does \<open>new PersistInfobox(i)\<close>.
\<close>

theorem set_one_reference_counterexample:
  "both_or_neither (constructor None None)
   \<and> \<not> both_or_neither (set_pib (constructor None None) None (Some base3_marker) None)
   \<and> \<not> both_or_neither (set_pib (constructor None None) (Some base3_infobox) None None)
   \<and> \<not> both_or_neither (constructor (Some base3_infobox) None)"
  by (simp add: both_or_neither_def constructor_def set_pib_def)

text \<open>
  Property C2, amended. \<open>clear\<close>, \<open>close\<close> and \<open>open\<close> keep the infobox and the marker
  both set or both null; \<open>set\<close> and the constructor leave them so exactly when their two
  arguments are both objects or both null, which is how the script calls them; and the
  two are both set or both null in every state the page reaches.
\<close>

theorem both_set_or_cleared_together:
  "both_or_neither (constructor i m) = ((i = None) = (m = None))
   \<and> both_or_neither (set_pib this i m mp) = ((i = None) = (m = None))
   \<and> both_or_neither (clear this)
   \<and> (both_or_neither this \<longrightarrow>
        both_or_neither (fst (close this)) \<and> both_or_neither (fst (open_pib this g)))
   \<and> (reachable s \<longrightarrow> both_or_neither (persist_infobox s))"
proof -
  have "both_or_neither (constructor i m) = ((i = None) = (m = None))"
    and "both_or_neither (set_pib this i m mp) = ((i = None) = (m = None))"
    and "both_or_neither (clear this)"
    by (simp_all add: both_or_neither_def constructor_def set_pib_def clear_def)
  then show ?thesis
    by (simp add: reachable_both_or_neither both_or_neither_close fst_open_pib)
qed

theorem both_set_or_cleared_together_witness:
  "both_or_neither (persist_infobox (marker_click base3_marker start_page))
   \<and> persist_infobox (marker_click base3_marker start_page)
        = \<lparr>infobox = Some base3_infobox, marker = Some base3_marker\<rparr>
   \<and> both_or_neither (fst (close \<lparr>infobox = Some base3_infobox, marker = Some base3_marker\<rparr>))
   \<and> both_or_neither (set_pib (constructor None None) (Some base3_infobox) (Some base3_marker) None)"
proof -
  let ?p = "\<lparr>infobox = Some base3_infobox, marker = Some base3_marker\<rparr>"
  have stored: "persist_infobox (marker_click base3_marker start_page) = ?p"
    by (simp add: click_base3)
  have inv: "both_or_neither ?p"
    by (simp add: both_or_neither_def)
  from both_set_or_cleared_together
         [of "Some base3_infobox" "Some base3_marker" ?p None _ "marker_click base3_marker start_page"]
    both_set_or_cleared_together
         [of "Some base3_infobox" "Some base3_marker" "constructor None None" None]
    reachable_click_base3 inv stored
  show ?thesis by simp
qed

text \<open>
  Property C4. When the body of the answer is the string \<open>error\<close>, \<open>success\<close> returns
  after writing one line to the console: the table HTML, the document, the markers, the
  polylines, the selection and the persisted popup are as before, and no call is made.
\<close>

theorem success_error_sentinel:
  "success html_into Error_sentinel s
     = Inr (s\<lparr>console := console s @ [''Server available but failed returning content.'']\<rparr>)
   \<and> (\<exists>s'. success html_into Error_sentinel s = Inr s'
         \<and> locos_table_html s' = locos_table_html s
         \<and> document_elems s' = document_elems s
         \<and> status_map_markers s' = status_map_markers s
         \<and> curr_polylines s' = curr_polylines s
         \<and> curr_loco s' = curr_loco s
         \<and> persist_infobox s' = persist_infobox s
         \<and> calls s' = calls s)"
proof -
  have "success html_into Error_sentinel s
     = Inr (s\<lparr>console := console s @ [''Server available but failed returning content.'']\<rparr>)"
    by (simp add: success_def)
  then show ?thesis by simp
qed

text \<open>The loop appends to what was noted before it, keeping the order of the elements.\<close>

lemma needs_txtshuffle_each_filter:
  "needs_txtshuffle_each sd es acc
     = acc @ map el_id (filter (\<lambda>e. sd (prop_key (el_id e)) \<noteq> Some (el_text e)) es)"
  by (induction es arbitrary: acc) simp_all

text \<open>
  Property C5. The ids noted for the shuffle effect are exactly those of the shuffleable
  elements whose text is not the new value in \<open>shuffle_data\<close>, in document order; when
  every shuffleable element shows its new value, none is noted.
\<close>

theorem needs_txtshuffle_exact:
  "needs_txtshuffle sd doc
     = map el_id (filter (\<lambda>e. sd (prop_key (el_id e)) \<noteq> Some (el_text e)) (shuffleable doc))
   \<and> ((\<forall>e \<in> set (shuffleable doc). sd (prop_key (el_id e)) = Some (el_text e))
        \<longrightarrow> needs_txtshuffle sd doc = [])"
proof -
  have eq: "needs_txtshuffle sd doc
     = map el_id (filter (\<lambda>e. sd (prop_key (el_id e)) \<noteq> Some (el_text e)) (shuffleable doc))"
    by (simp add: needs_txtshuffle_def needs_txtshuffle_each_filter)
  have "filter (\<lambda>e. sd (prop_key (el_id e)) \<noteq> Some (el_text e)) (shuffleable doc) = []"
    if "\<forall>e \<in> set (shuffleable doc). sd (prop_key (el_id e)) = Some (el_text e)"
    using that by (simp add: filter_empty_conv)
  with eq show ?thesis by simp
qed

theorem needs_txtshuffle_exact_witness:
  "needs_txtshuffle (map_of [(''speed'', ''42''), (''heading'', ''N'')]) sample_doc = []
   \<and> needs_txtshuffle (map_of [(''speed'', ''43''), (''heading'', ''N'')]) sample_doc
        = [Some ''speed'']"
proof -
  have shown: "shuffleable sample_doc =
      [\<lparr>el_id = Some ''speed'', classes = [''shuffleable''], el_text = ''42''\<rparr>,
       \<lparr>el_id = Some ''heading'', classes = [''cell'', ''shuffleable''], el_text = ''N''\<rparr>]"
    by (simp add: shuffleable_def sample_doc_def)
  have same: "\<forall>e \<in> set (shuffleable sample_doc).
      map_of [(''speed'', ''42''), (''heading'', ''N'')] (prop_key (el_id e)) = Some (el_text e)"
    by (simp add: shown prop_key_def)
  from needs_txtshuffle_exact [of "map_of [(''speed'', ''42''), (''heading'', ''N'')]" sample_doc]
    same
  have "needs_txtshuffle (map_of [(''speed'', ''42''), (''heading'', ''N'')]) sample_doc = []"
    by blast
  moreover
  from needs_txtshuffle_exact [of "map_of [(''speed'', ''43''), (''heading'', ''N'')]" sample_doc]
  have "needs_txtshuffle (map_of [(''speed'', ''43''), (''heading'', ''N'')]) sample_doc
        = [Some ''speed'']"
    by (simp add: shown prop_key_def)
  ultimately show ?thesis by simp
qed

text \<open>
  Property C6. From a selection other than \<open>n\<close>, \<open>home_select_loco(n)\<close> selects \<open>n\<close>, and
  a second \<open>home_select_loco(n)\<close> clears the selection.
\<close>

theorem select_twice:
  "curr_loco s \<noteq> Some n \<Longrightarrow>
     curr_loco (page_after (home_select_loco n s)) = Some n
     \<and> curr_loco (page_after (home_select_loco n (page_after (home_select_loco n s)))) = None"
proof -
  assume other: "curr_loco s \<noteq> Some n"
  have first: "curr_loco (page_after (home_select_loco n s)) = Some n"
    using other
    by (simp add: home_select_loco_def page_after_def get_content_async_def perform_fields
        Let_def split: sum.split)
  have "curr_loco (page_after (home_select_loco n t)) = None" if "curr_loco t = Some n" for t
    using that by (simp add: home_select_loco_def page_after_def get_content_async_def)
  with first show ?thesis by simp
qed

theorem select_twice_witness:
  "curr_loco start_page \<noteq> Some ''Loco 1001''
   \<and> curr_loco (page_after (home_select_loco ''Loco 1001'' start_page)) = Some ''Loco 1001''
   \<and> curr_loco (page_after (home_select_loco ''Loco 1001''
        (page_after (home_select_loco ''Loco 1001'' start_page)))) = None"
proof -
  have other: "curr_loco start_page \<noteq> Some ''Loco 1001''"
    by (simp add: start_page_def)
  with select_twice [OF other] show ?thesis by simp
qed

text \<open>
  Property C1, as stated: with the popup of the marker titled \<open>Base 3\<close> persisted,
  \<open>home_select_loco('Loco 1001')\<close> would close it before the request. It does not: after
  a click on the Base 3 marker of the sample page, selecting Loco 1001 keeps both
  references, and the only call it adds is the request.
\<close>

theorem select_keeps_base_popup_counterexample:
  "title base3_marker = Some ''Base 3''
   \<and> persist_infobox (marker_click base3_marker start_page)
        = \<lparr>infobox = Some base3_infobox, marker = Some base3_marker\<rparr>
   \<and> home_select_loco ''Loco 1001'' (marker_click base3_marker start_page)
        = Inr (start_page
                \<lparr>curr_loco := Some ''Loco 1001'',
                 persist_infobox := \<lparr>infobox = Some base3_infobox, marker = Some base3_marker\<rparr>,
                 calls := [IW_open base3_infobox status_map (Some base3_marker),
                           Ajax_post (Some ''Loco 1001'')]\<rparr>)"
proof -
  have titled: "title base3_marker = Some ''Base 3''"
    by (simp add: base3_marker_def)
  have unselected: "curr_loco start_page = None"
    by (simp add: start_page_def)
  show ?thesis
    by (simp add: click_base3 titled unselected home_select_loco_def get_content_async_def
        is_loco_def is_for_device_def perform_fields Let_def)
qed

text \<open>
  Property C1, amended. With the popup of the marker titled \<open>Base 3\<close> persisted,
  \<open>home_select_loco('Loco 1001')\<close> leaves the popup alone (both references kept, no call
  on the infobox) and issues the request. The popup is closed (hidden, both references
  cleared) before the request is issued when its marker's title contains \<open>Loco\<close> and is
  not the name now selected, that name not being the selection already.
\<close>

theorem select_closes_other_loco_popup:
  "(marker (persist_infobox s) = Some m \<and> title m = Some ''Base 3'' \<longrightarrow>
      (\<exists>s'. home_select_loco ''Loco 1001'' s = Inr s'
          \<and> persist_infobox s' = persist_infobox s
          \<and> calls s' = calls s @ [Ajax_post (if curr_loco s = Some ''Loco 1001'' then None
                                             else Some ''Loco 1001'')]))
   \<and> (curr_loco s \<noteq> Some n \<and> infobox (persist_infobox s) = Some i
       \<and> marker (persist_infobox s) = Some m' \<and> title m' = Some t
       \<and> str_includes t ''Loco'' \<and> t \<noteq> n \<longrightarrow>
      (\<exists>s'. home_select_loco n s = Inr s'
          \<and> persist_infobox s' = constructor None None
          \<and> calls s' = calls s @ [IW_close i, Ajax_post (Some n)]))"
proof (intro conjI impI)
  assume base: "marker (persist_infobox s) = Some m \<and> title m = Some ''Base 3''"
  then have not_loco: "is_loco (persist_infobox s) = Inr (JBool False)"
    by (simp add: is_loco_def)
  then show "\<exists>s'. home_select_loco ''Loco 1001'' s = Inr s'
          \<and> persist_infobox s' = persist_infobox s
          \<and> calls s' = calls s @ [Ajax_post (if curr_loco s = Some ''Loco 1001'' then None
                                             else Some ''Loco 1001'')]"
    by (simp add: home_select_loco_def get_content_async_def)
next
  assume loco: "curr_loco s \<noteq> Some n \<and> infobox (persist_infobox s) = Some i
       \<and> marker (persist_infobox s) = Some m' \<and> title m' = Some t
       \<and> str_includes t ''Loco'' \<and> t \<noteq> n"
  then have test: "is_loco (persist_infobox s) = Inr (JBool True)
      \<and> \<not> truthy (is_for_device (persist_infobox s) n)"
    by (simp add: is_loco_def is_for_device_def)
  from loco have closing: "close (persist_infobox s) = (constructor None None, [IW_close i])"
    by (simp add: close_def clear_def constructor_def)
  from loco test closing
  show "\<exists>s'. home_select_loco n s = Inr s'
          \<and> persist_infobox s' = constructor None None
          \<and> calls s' = calls s @ [IW_close i, Ajax_post (Some n)]"
    by (simp add: home_select_loco_def get_content_async_def perform_fields)
qed

theorem select_closes_other_loco_popup_witness:
  "persist_infobox (page_after (home_select_loco ''Loco 1001'' (marker_click base3_marker start_page)))
     = persist_infobox (marker_click base3_marker start_page)
   \<and> persist_infobox (page_after (home_select_loco ''Loco 1001''
        (marker_click loco1002_marker start_page)))
     = constructor None None
   \<and> calls (page_after (home_select_loco ''Loco 1001'' (marker_click loco1002_marker start_page)))
     = [IW_open loco1002_infobox status_map (Some loco1002_marker),
        IW_close loco1002_infobox, Ajax_post (Some ''Loco 1001'')]"
proof -
  let ?b = "marker_click base3_marker start_page"
  let ?l = "marker_click loco1002_marker start_page"
  have "title base3_marker = Some ''Base 3''"
    by (simp add: base3_marker_def)
  then have base: "marker (persist_infobox ?b) = Some base3_marker
      \<and> title base3_marker = Some ''Base 3''"
    by (simp add: click_base3)
  have loco: "curr_loco ?l \<noteq> Some ''Loco 1001'' \<and> infobox (persist_infobox ?l) = Some loco1002_infobox
       \<and> marker (persist_infobox ?l) = Some loco1002_marker
       \<and> title loco1002_marker = Some ''Loco 1002''
       \<and> str_includes ''Loco 1002'' ''Loco''
       \<and> ''Loco 1002'' \<noteq> ''Loco 1001''"
  proof -
    have "title loco1002_marker = Some ''Loco 1002''" and "curr_loco start_page = None"
      by (simp_all add: loco1002_marker_def start_page_def)
    then show ?thesis
      by (simp add: click_loco1002)
  qed
  have opened: "calls ?l = [IW_open loco1002_infobox status_map (Some loco1002_marker)]"
    by (simp add: click_loco1002)
  from select_closes_other_loco_popup [of ?b base3_marker]
  obtain sb where sb: "home_select_loco ''Loco 1001'' ?b = Inr sb"
    and kept: "persist_infobox sb = persist_infobox ?b"
    using base by blast
  from select_closes_other_loco_popup
         [of ?l _ "''Loco 1001''" loco1002_infobox loco1002_marker "''Loco 1002''"]
  obtain sl where sl: "home_select_loco ''Loco 1001'' ?l = Inr sl"
    and closed: "persist_infobox sl = constructor None None"
    and called: "calls sl = calls ?l @ [IW_close loco1002_infobox, Ajax_post (Some ''Loco 1001'')]"
    using loco by blast
  from sb kept sl closed called opened show ?thesis
    by (simp add: page_after_def)
qed

end
